theory Spec2Isabelle
  imports Main
begin

section \<open>Values of the plugin framework\<close>

text \<open>
  The attribute types of the plugin framework (\<open>types.String\<close>, \<open>types.Bool\<close>,
  \<open>types.Map\<close>) hold a known value, null, or unknown. The accessors \<open>ValueString\<close> and
  \<open>ValueBool\<close> return the zero value for the last two; \<open>ValueBoolPointer\<close> returns a nil
  pointer for null only.
\<close>

datatype tf_String = StringNull | StringUnknown | StringValue string

fun ValueString :: "tf_String \<Rightarrow> string" where
  "ValueString (StringValue s) = s"
| "ValueString StringNull = []"
| "ValueString StringUnknown = []"

datatype tf_Bool = BoolNull | BoolUnknown | BoolValue bool

fun ValueBool :: "tf_Bool \<Rightarrow> bool" where
  "ValueBool (BoolValue b) = b"
| "ValueBool BoolNull = False"
| "ValueBool BoolUnknown = False"

fun ValueBoolPointer :: "tf_Bool \<Rightarrow> bool option" where
  "ValueBoolPointer BoolNull = None"
| "ValueBoolPointer BoolUnknown = Some False"
| "ValueBoolPointer (BoolValue b) = Some b"

text \<open>
  A Go \<open>map[string]string\<close> is a partial map, or nil (\<open>None\<close>). \<open>ElementsAs\<close> with
  \<open>allowUnhandled = true\<close> leaves the nil map for a null or unknown \<open>types.Map\<close> and reads a
  null or unknown element as the empty string.
\<close>

type_synonym go_labels = "(string \<rightharpoonup> string) option"

datatype tf_Map = MapNull | MapUnknown | MapValue "string \<rightharpoonup> tf_String"

fun ElementsAs :: "tf_Map \<Rightarrow> go_labels" where
  "ElementsAs MapNull = None"
| "ElementsAs MapUnknown = None"
| "ElementsAs (MapValue m) = Some (\<lambda>k. map_option ValueString (m k))"

section \<open>Diagnostics\<close>

text \<open>
  \<open>diag.Diagnostics\<close> is a list of error and warning diagnostics, each with a summary and a
  detail. \<open>Append\<close> skips a diagnostic that the list already contains; \<open>AddError\<close> and
  \<open>AddWarning\<close> append one diagnostic through it.
\<close>

datatype Diagnostic = ErrorDiagnostic string string | WarningDiagnostic string string

type_synonym Diagnostics = "Diagnostic list"

fun isError :: "Diagnostic \<Rightarrow> bool" where
  "isError (ErrorDiagnostic s d) = True"
| "isError (WarningDiagnostic s d) = False"

fun isWarning :: "Diagnostic \<Rightarrow> bool" where
  "isWarning (ErrorDiagnostic s d) = False"
| "isWarning (WarningDiagnostic s d) = True"

fun Append :: "Diagnostics \<Rightarrow> Diagnostic list \<Rightarrow> Diagnostics" where
  "Append diags [] = diags"
| "Append diags (d # ds) = Append (if d \<in> set diags then diags else diags @ [d]) ds"

definition AddError :: "Diagnostics \<Rightarrow> string \<Rightarrow> string \<Rightarrow> Diagnostics" where
  "AddError diags summary detail = Append diags [ErrorDiagnostic summary detail]"

definition AddWarning :: "Diagnostics \<Rightarrow> string \<Rightarrow> string \<Rightarrow> Diagnostics" where
  "AddWarning diags summary detail = Append diags [WarningDiagnostic summary detail]"

definition HasError :: "Diagnostics \<Rightarrow> bool" where
  "HasError diags = list_ex isError diags"

text \<open>The diagnostics of the remote service, as the SDK decodes them.\<close>

record bindings_Diagnostic =
  Severity :: string
  Summary :: string
  Detail :: string

text \<open>
  \<open>handleStartrailDiagnostics\<close>: the nil check, then the loop over the slice
  (\<open>handle_range\<close>), which updates the caller's diagnostics in place.
\<close>

fun handle_range :: "bindings_Diagnostic list \<Rightarrow> Diagnostics \<Rightarrow> Diagnostics" where
  "handle_range [] diags = diags"
| "handle_range (d # ds) diags =
     handle_range ds
       (if Severity d = ''error'' \<or> Severity d = ''Error''
          then AddError diags (Summary d) (Detail d)
        else if Severity d = ''warning'' \<or> Severity d = ''Warning''
          then AddWarning diags (Summary d) (Detail d)
        else diags)"

definition handleStartrailDiagnostics ::
  "bindings_Diagnostic list option \<Rightarrow> Diagnostics \<Rightarrow> Diagnostics" where
  "handleStartrailDiagnostics diagnostics diags =
     (case diagnostics of None \<Rightarrow> diags | Some ds \<Rightarrow> handle_range ds diags)"

section \<open>The domain objects of the SDK\<close>

text \<open>
  The fields of the SDK's types that the provider reads or writes. \<open>Disabled\<close> is a
  pointer (\<open>None\<close> is nil). \<open>NullableMetadata\<close> holds a pointer and the flag \<open>isSet\<close>;
  its zero value \<open>NullableMetadata{}\<close> is unset. The SDK is generated code outside the
  repository; its getters are the usual ones: \<open>GetDisabled\<close> reads false through a nil
  pointer, \<open>HasMetadata\<close> is the flag \<open>isSet\<close>, \<open>GetMetadata\<close> gives the zero
  \<open>Metadata\<close> for a nil pointer, and the getters of the string fields return the field.

  A Go map from strings, where the provider ranges over it, is a list of pairs with one pair
  per key: the order of the list is the order in which that range visits the entries, which
  the Go runtime does not fix. \<open>map_assign m k v\<close> is the assignment \<open>m[k] = v\<close>.
\<close>

record bindings_Access =
  Auth :: bool
  Endpoint :: string
  Internal :: bool

record bindings_Logging =
  LoggingLabels :: go_labels

record bindings_Source =
  SourceLabels :: go_labels

record bindings_Metadata =
  MetadataLabels :: go_labels

record NullableMetadata =
  nm_value :: "bindings_Metadata option"
  isSet :: bool

type_synonym 'v go_map = "(string \<times> 'v) list"

fun map_assign :: "'v go_map \<Rightarrow> string \<Rightarrow> 'v \<Rightarrow> 'v go_map" where
  "map_assign [] k v = [(k, v)]"
| "map_assign ((k', v') # m) k v =
     (if k' = k then (k, v) # m else (k', v') # map_assign m k v)"

record Service =
  Access :: "bindings_Access list"
  Description :: string
  Disabled :: "bool option"
  Environment :: string
  Logging :: "bindings_Logging go_map"
  Metadata :: NullableMetadata
  Name :: string
  Remarks :: string
  Sources :: "bindings_Source go_map"
  Tenant :: string

definition GetDisabled :: "Service \<Rightarrow> bool" where
  "GetDisabled s = (case Disabled s of None \<Rightarrow> False | Some b \<Rightarrow> b)"

definition HasMetadata :: "Service \<Rightarrow> bool" where
  "HasMetadata s = isSet (Metadata s)"

definition GetMetadata :: "Service \<Rightarrow> bindings_Metadata" where
  "GetMetadata s =
     (case nm_value (Metadata s) of None \<Rightarrow> \<lparr>MetadataLabels = None\<rparr> | Some m \<Rightarrow> m)"

record ServiceResponse =
  GetResponse :: Service
  GetDiagnostics :: "bindings_Diagnostic list option"

section \<open>The resource data model\<close>

text \<open>
  \<open>ServiceModel\<close> and its nested blocks. The fields carry a prefix, since a record field is
  a constant of the theory: \<open>Model_Name\<close> is \<open>ServiceModel.Name\<close>, \<open>Logging_Source\<close> is
  \<open>ServiceResourceModelLogging.Source\<close>, and so on. \<open>Model_Metadata\<close> is a pointer.
\<close>

record ServiceResourceModelAccess =
  Access_Auth :: tf_Bool
  Access_Endpoint :: tf_String
  Access_Internal :: tf_Bool

record ServiceResourceModelLogging =
  Logging_Labels :: tf_Map
  Logging_Source :: tf_String

record ServiceResourceM0delSource =
  Source_Labels :: tf_Map
  Source_Source :: tf_String

record ServiceResourceModelMetadata =
  Metadata_Labels :: tf_Map

record ServiceModel =
  Model_Id :: tf_String
  Model_Access :: "ServiceResourceModelAccess list"
  Model_Description :: tf_String
  Model_Disabled :: tf_Bool
  Model_Environment :: tf_String
  Model_Logging :: "ServiceResourceModelLogging list"
  Model_Metadata :: "ServiceResourceModelMetadata option"
  Model_Name :: tf_String
  Model_Remarks :: tf_String
  Model_Sources :: "ServiceResourceM0delSource list"

text \<open>The zero value \<open>ServiceModel{}\<close>: every attribute null, every slice and pointer nil.\<close>

definition ServiceModel_zero :: ServiceModel where
  "ServiceModel_zero =
     \<lparr>Model_Id = StringNull, Model_Access = [], Model_Description = StringNull,
      Model_Disabled = BoolNull, Model_Environment = StringNull, Model_Logging = [],
      Model_Metadata = None, Model_Name = StringNull, Model_Remarks = StringNull,
      Model_Sources = []\<rparr>"

text \<open>
  The client that the provider hands to the resource and the data source: the
  \<open>Authorization\<close> header of its API client, the tenant and the default environment.
\<close>

record StartrailProviderClient =
  client_Authorization :: string
  client_Tenant :: string
  client_Environment :: string

section \<open>The remote service\<close>

text \<open>
  The three operations of the service API are calls; the remote side is a function from the
  call to what \<open>Execute\<close> returns: an error, or a response with the status code and the body
  of the HTTP response. Every lifecycle function returns, next to its result, the calls it
  made.
\<close>

datatype call =
  GetCall string string string
| CreateCall Service
| DeleteCall string string string

datatype exec = ExecErr string | ExecOk ServiceResponse int string

type_synonym remote = "call \<Rightarrow> exec"

section \<open>The mapping between the data model and the domain object\<close>

text \<open>
  \<open>post_service\<close> is the part of \<open>ServiceResource.post\<close> that builds the
  \<open>bindings.Service\<close>: the environment with its fallback, the tenant of the client, the three
  loops over access, logging and sources. The variable \<open>metadata\<close> is declared as
  \<open>NullableMetadata{}\<close> and passed on as it is.
\<close>

definition post_service :: "StartrailProviderClient \<Rightarrow> ServiceModel \<Rightarrow> Service" where
  "post_service client data =
     (let environment = ValueString (Model_Environment data);
          environment = (if environment = [] then client_Environment client else environment);
          tenant = client_Tenant client;
          metadata = \<lparr>nm_value = None, isSet = False\<rparr>;
          access = map (\<lambda>a. \<lparr>Auth = ValueBool (Access_Auth a),
                                Endpoint = ValueString (Access_Endpoint a),
                                Internal = ValueBool (Access_Internal a)\<rparr>) (Model_Access data);
          logging = foldl (\<lambda>m l. map_assign m (ValueString (Logging_Source l))
                                    \<lparr>LoggingLabels = ElementsAs (Logging_Labels l)\<rparr>)
                      [] (Model_Logging data);
          sources = foldl (\<lambda>m s. map_assign m (ValueString (Source_Source s))
                                    \<lparr>SourceLabels = ElementsAs (Source_Labels s)\<rparr>)
                      [] (Model_Sources data)
      in \<lparr>Access = access,
          Description = ValueString (Model_Description data),
          Disabled = ValueBoolPointer (Model_Disabled data),
          Environment = environment,
          Logging = logging,
          Metadata = metadata,
          Name = ValueString (Model_Name data),
          Remarks = ValueString (Model_Remarks data),
          Sources = sources,
          Tenant = tenant\<rparr>)"

text \<open>
  \<open>tf_labels\<close> is the loop that copies a label map into a map of \<open>types.StringValue\<close>,
  followed by \<open>types.MapValue\<close>, which reports no error for elements of the string type; so
  \<open>parseServiceResponse\<close> returns no diagnostics.
\<close>

fun tf_labels :: "go_labels \<Rightarrow> tf_Map" where
  "tf_labels None = MapValue Map.empty"
| "tf_labels (Some m) = MapValue (\<lambda>k. map_option StringValue (m k))"

definition parseServiceResponse :: "ServiceResponse \<Rightarrow> ServiceModel \<times> Diagnostics" where
  "parseServiceResponse startrailResponse =
     (let s = GetResponse startrailResponse;
          tfLogging = map (\<lambda>(k, v). \<lparr>Logging_Labels = tf_labels (LoggingLabels v),
                                      Logging_Source = StringValue k\<rparr>) (Logging s);
          tfSources = map (\<lambda>(k, v). \<lparr>Source_Labels = tf_labels (SourceLabels v),
                                      Source_Source = StringValue k\<rparr>) (Sources s);
          tfMetadata =
            (if HasMetadata s
             then (case MetadataLabels (GetMetadata s) of
                     None \<Rightarrow> None
                   | Some m \<Rightarrow> Some \<lparr>Metadata_Labels = tf_labels (Some m)\<rparr>)
             else None);
          tfAccess = map (\<lambda>a. \<lparr>Access_Auth = BoolValue (Auth a),
                                 Access_Endpoint = StringValue (Endpoint a),
                                 Access_Internal = BoolValue (Internal a)\<rparr>) (Access s)
      in (\<lparr>Model_Id = StringValue (Tenant s @ ''/'' @ Environment s @ ''/'' @ Name s),
           Model_Access = tfAccess,
           Model_Description = StringValue (Description s),
           Model_Disabled = BoolValue (GetDisabled s),
           Model_Environment = StringValue (Environment s),
           Model_Logging = tfLogging,
           Model_Metadata = tfMetadata,
           Model_Name = StringValue (Name s),
           Model_Remarks = StringValue (Remarks s),
           Model_Sources = tfSources\<rparr>, []))"

text \<open>\<open>ServiceResource.post\<close>: the result, and the calls made.\<close>

definition post ::
  "StartrailProviderClient \<Rightarrow> remote \<Rightarrow> ServiceModel
     \<Rightarrow> (ServiceModel \<times> Diagnostics) \<times> call list" where
  "post client api data =
     (let service = post_service client data;
          calls = [CreateCall service]
      in case api (CreateCall service) of
           ExecErr err \<Rightarrow>
             ((ServiceModel_zero,
               AddError [] ''Client Error'' (''Unable to update service, got error: '' @ err)),
              calls)
         | ExecOk startrailResponse StatusCode Body \<Rightarrow>
             (let diags = handleStartrailDiagnostics (GetDiagnostics startrailResponse) []
              in if HasError diags then ((ServiceModel_zero, diags), calls)
                 else if StatusCode \<noteq> 200
                 then ((ServiceModel_zero,
                        AddError diags ''Client Error''
                          (''Unable to update service, got errors: '' @ Body)),
                       calls)
                 else (parseServiceResponse startrailResponse, calls)))"

section \<open>The lifecycle operations of the resource and the data source\<close>

text \<open>
  A request carries what \<open>req.Plan.Get\<close>, \<open>req.State.Get\<close> or \<open>req.Config.Get\<close> yields: the
  diagnostics of the decoding and the decoded \<open>ServiceModel\<close>. A response carries the
  diagnostics and the state; \<open>resp.State.Set(ctx, &data)\<close> stores the model and, the model
  having the shape of the schema, reports nothing. The response a function receives holds
  the prior state.
\<close>

record Request =
  req_Diagnostics :: "Diagnostic list"
  req_Data :: ServiceModel

record Response =
  resp_Diagnostics :: Diagnostics
  resp_State :: "ServiceModel option"

definition Create ::
  "StartrailProviderClient \<Rightarrow> remote \<Rightarrow> Request \<Rightarrow> Response \<Rightarrow> Response \<times> call list" where
  "Create r api req resp =
     (let resp = resp\<lparr>resp_Diagnostics := Append (resp_Diagnostics resp) (req_Diagnostics req)\<rparr>
      in if HasError (resp_Diagnostics resp) then (resp, [])
         else (case post r api (req_Data req) of
                 ((data, diags), calls) \<Rightarrow>
                   (let resp = resp\<lparr>resp_Diagnostics := Append (resp_Diagnostics resp) diags\<rparr>
                    in (resp\<lparr>resp_State := Some data\<rparr>, calls))))"

definition Update ::
  "StartrailProviderClient \<Rightarrow> remote \<Rightarrow> Request \<Rightarrow> Response \<Rightarrow> Response \<times> call list" where
  "Update r api req resp =
     (let resp = resp\<lparr>resp_Diagnostics := Append (resp_Diagnostics resp) (req_Diagnostics req)\<rparr>
      in if HasError (resp_Diagnostics resp) then (resp, [])
         else (case post r api (req_Data req) of
                 ((data, diags), calls) \<Rightarrow>
                   (let resp = resp\<lparr>resp_Diagnostics := Append (resp_Diagnostics resp) diags\<rparr>
                    in if HasError (resp_Diagnostics resp) then (resp, calls)
                       else (resp\<lparr>resp_State := Some data\<rparr>, calls))))"

definition Read ::
  "StartrailProviderClient \<Rightarrow> remote \<Rightarrow> Request \<Rightarrow> Response \<Rightarrow> Response \<times> call list" where
  "Read r api req resp =
     (let resp = resp\<lparr>resp_Diagnostics := Append (resp_Diagnostics resp) (req_Diagnostics req)\<rparr>
      in if HasError (resp_Diagnostics resp) then (resp, [])
         else
           (let data = req_Data req;
                environment = ValueString (Model_Environment data);
                environment = (if environment = [] then client_Environment r else environment);
                clientReq = GetCall (client_Tenant r) environment (ValueString (Model_Name data))
            in case api clientReq of
                 ExecErr err \<Rightarrow>
                   (resp\<lparr>resp_Diagnostics := AddError (resp_Diagnostics resp) ''Client Error''
                       (''Unable to delete service, got error: '' @ err)\<rparr>, [clientReq])
               | ExecOk startrailResponse StatusCode Body \<Rightarrow>
                   (let resp = resp\<lparr>resp_Diagnostics :=
                          handleStartrailDiagnostics (GetDiagnostics startrailResponse)
                            (resp_Diagnostics resp)\<rparr>
                    in if HasError (resp_Diagnostics resp) then (resp, [clientReq])
                       else if StatusCode \<noteq> 200
                       then (resp\<lparr>resp_Diagnostics := AddError (resp_Diagnostics resp)
                               ''Client Error''
                               (''Unable to delete service, got error: '' @ Body)\<rparr>, [clientReq])
                       else (case parseServiceResponse startrailResponse of
                               (data, diags) \<Rightarrow>
                                 (resp\<lparr>resp_Diagnostics := Append (resp_Diagnostics resp) diags,
                                        resp_State := Some data\<rparr>, [clientReq])))))"

definition Delete ::
  "StartrailProviderClient \<Rightarrow> remote \<Rightarrow> Request \<Rightarrow> Response \<Rightarrow> Response \<times> call list" where
  "Delete r api req resp =
     (let resp = resp\<lparr>resp_Diagnostics := Append (resp_Diagnostics resp) (req_Diagnostics req)\<rparr>
      in if HasError (resp_Diagnostics resp) then (resp, [])
         else
           (let data = req_Data req;
                environment = ValueString (Model_Environment data);
                environment = (if environment = [] then client_Environment r else environment);
                clientReq = DeleteCall (client_Tenant r) environment (ValueString (Model_Name data))
            in case api clientReq of
                 ExecErr err \<Rightarrow>
                   (resp\<lparr>resp_Diagnostics := AddError (resp_Diagnostics resp) ''Client Error''
                       (''Unable to delete service, got error: '' @ err)\<rparr>, [clientReq])
               | ExecOk startrailResponse StatusCode Body \<Rightarrow>
                   (let resp = resp\<lparr>resp_Diagnostics :=
                          handleStartrailDiagnostics (GetDiagnostics startrailResponse)
                            (resp_Diagnostics resp)\<rparr>
                    in if HasError (resp_Diagnostics resp) then (resp, [clientReq])
                       else if StatusCode \<noteq> 200
                       then (resp\<lparr>resp_Diagnostics := AddError (resp_Diagnostics resp)
                               ''Client Error''
                               (''Unable to delete service, got error: '' @ Body)\<rparr>, [clientReq])
                       else (resp, [clientReq]))))"

text \<open>
  \<open>ServiceDataSource.Read\<close> runs the statements of the resource's \<open>Read\<close> on the
  configuration of the data source and the client \<open>d\<close>.
\<close>

definition DataSource_Read ::
  "StartrailProviderClient \<Rightarrow> remote \<Rightarrow> Request \<Rightarrow> Response \<Rightarrow> Response \<times> call list" where
  "DataSource_Read d api req resp =
     (let resp = resp\<lparr>resp_Diagnostics := Append (resp_Diagnostics resp) (req_Diagnostics req)\<rparr>
      in if HasError (resp_Diagnostics resp) then (resp, [])
         else
           (let data = req_Data req;
                environment = ValueString (Model_Environment data);
                environment = (if environment = [] then client_Environment d else environment);
                clientReq = GetCall (client_Tenant d) environment (ValueString (Model_Name data))
            in case api clientReq of
                 ExecErr err \<Rightarrow>
                   (resp\<lparr>resp_Diagnostics := AddError (resp_Diagnostics resp) ''Client Error''
                       (''Unable to delete service, got error: '' @ err)\<rparr>, [clientReq])
               | ExecOk startrailResponse StatusCode Body \<Rightarrow>
                   (let resp = resp\<lparr>resp_Diagnostics :=
                          handleStartrailDiagnostics (GetDiagnostics startrailResponse)
                            (resp_Diagnostics resp)\<rparr>
                    in if HasError (resp_Diagnostics resp) then (resp, [clientReq])
                       else if StatusCode \<noteq> 200
                       then (resp\<lparr>resp_Diagnostics := AddError (resp_Diagnostics resp)
                               ''Client Error''
                               (''Unable to delete service, got error: '' @ Body)\<rparr>, [clientReq])
                       else (case parseServiceResponse startrailResponse of
                               (data, diags) \<Rightarrow>
                                 (resp\<lparr>resp_Diagnostics := Append (resp_Diagnostics resp) diags,
                                        resp_State := Some data\<rparr>, [clientReq])))))"

section \<open>Provider configuration\<close>

text \<open>
  \<open>StartrailProviderModel\<close> is the provider block. What \<open>Configure\<close> reads from outside the
  program is the record \<open>Environ\<close>: the two environment variables (\<open>os.Getenv\<close> gives the
  empty string for an unset one), the error of \<open>url.Parse\<close> if any, the outcome of the
  well-known request (an error, or the device-flow flag and the status code), the refresh
  token of the keyring or the error of reading it, and the token source (from the refresh
  token: an error, or the access token and the refresh token of the new token).
\<close>

record StartrailProviderModel =
  cfg_Endpoint :: tf_String
  cfg_ApiKey :: tf_String
  cfg_Debug :: tf_Bool
  cfg_Environment :: tf_String
  cfg_Tenant :: tf_String

fun IsNull :: "tf_String \<Rightarrow> bool" where
  "IsNull StringNull = True"
| "IsNull StringUnknown = False"
| "IsNull (StringValue s) = False"

datatype auth_exec = AuthErr string | AuthOk bool int

record Environ =
  STARTRAIL_TOKEN :: string
  STARTRAIL_API_KEY :: string
  url_Parse :: "string \<Rightarrow> string option"
  WellKnownAuth :: auth_exec
  keyring_Get :: "string + string"
  Token :: "string \<Rightarrow> string + string \<times> string"

text \<open>\<open>%d\<close> of \<open>fmt.Sprintf\<close>: the decimal digits of an integer.\<close>

fun decimal :: "nat \<Rightarrow> string" where
  "decimal n =
     (if n < 10 then [char_of (48 + n)] else decimal (n div 10) @ [char_of (48 + n mod 10)])"

definition Sprintf_d :: "int \<Rightarrow> string" where
  "Sprintf_d i = (if i < 0 then ''-'' @ decimal (nat (- i)) else decimal (nat i))"

text \<open>
  The credential of \<open>StartrailProvider.Configure\<close>: the \<open>if\<close> chain that assigns \<open>token\<close>.
  An \<open>Inl\<close> is the summary and detail of the error with which \<open>Configure\<close> returns; an
  \<open>Inr\<close> is the token and the refresh token written back to the keyring, if any. In the
  condition of the first branch \<open>&&\<close> binds tighter than \<open>||\<close>.
\<close>

definition Configure_token ::
  "Environ \<Rightarrow> StartrailProviderModel \<Rightarrow> string \<times> string + string \<times> string option" where
  "Configure_token os data =
     (if (STARTRAIL_TOKEN os = [] \<and> STARTRAIL_API_KEY os = []) \<or> IsNull (cfg_ApiKey data)
      then (case WellKnownAuth os of
              AuthErr err \<Rightarrow>
                Inl (''Client Error'', ''Unable to authenticate, got error: '' @ err)
            | AuthOk Enabled StatusCode \<Rightarrow>
                if StatusCode \<noteq> 200
                then Inl (''Client Error'',
                          ''Unable to authenticate, got status code: '' @ Sprintf_d StatusCode)
                else if \<not> Enabled
                then Inl (''Client Error'',
                          ''Device flow is not enabled for the tenant. Please pass an '' @
                          [CHR 0x27] @ ''api_key'' @ [CHR 0x27] @ '' instead'')
                else (case keyring_Get os of
                        Inl err \<Rightarrow>
                          Inl (''Client Error'',
                               ''Unable to get refresh token from keyring, got error: '' @ err)
                      | Inr refreshToken \<Rightarrow>
                          (case Token os refreshToken of
                             Inl err \<Rightarrow>
                               Inl (''Client Error'',
                                    ''Unable to get token from token source, got error: '' @ err)
                           | Inr (AccessToken, RefreshToken) \<Rightarrow>
                               Inr (''Bearer '' @ AccessToken,
                                    if RefreshToken \<noteq> [] then Some RefreshToken else None))))
      else if STARTRAIL_TOKEN os \<noteq> [] then Inr (''Bearer '' @ STARTRAIL_TOKEN os, None)
      else if STARTRAIL_API_KEY os \<noteq> [] then Inr (''apiKey '' @ STARTRAIL_API_KEY os, None)
      else Inr (''apiKey '' @ ValueString (cfg_ApiKey data), None))"

text \<open>
  \<open>StartrailProvider.Configure\<close>: the request carries the decoded provider block; the
  response carries the diagnostics, the client handed to the resource and the data source
  (\<open>ResourceData\<close> and \<open>DataSourceData\<close> are the same pointer), and the refresh token stored
  in the keyring.
\<close>

record ConfigureRequest =
  config_Diagnostics :: "Diagnostic list"
  config_Data :: StartrailProviderModel

record ConfigureResponse =
  conf_Diagnostics :: Diagnostics
  ResourceData :: "StartrailProviderClient option"
  keyring_Set :: "string option"

definition Configure :: "Environ \<Rightarrow> ConfigureRequest \<Rightarrow> ConfigureResponse \<Rightarrow> ConfigureResponse" where
  "Configure os req resp =
     (let data = config_Data req;
          resp = resp\<lparr>conf_Diagnostics := Append (conf_Diagnostics resp) (config_Diagnostics req)\<rparr>
      in if HasError (conf_Diagnostics resp) then resp
         else (case url_Parse os (ValueString (cfg_Endpoint data)) of
                 Some err \<Rightarrow>
                   resp\<lparr>conf_Diagnostics := AddError (conf_Diagnostics resp) ''Invalid endpoint''
                          (''The endpoint is not a valid URL, got error: '' @ err)\<rparr>
               | None \<Rightarrow>
                   (case Configure_token os data of
                      Inl (summary, detail) \<Rightarrow>
                        resp\<lparr>conf_Diagnostics := AddError (conf_Diagnostics resp) summary detail\<rparr>
                    | Inr (token, stored) \<Rightarrow>
                        (let tenant = ValueString (cfg_Tenant data);
                             tenant = (if tenant = [] then ''default'' else tenant);
                             c = \<lparr>client_Authorization = token,
                                  client_Tenant = tenant,
                                  client_Environment = ValueString (cfg_Environment data)\<rparr>
                         in resp\<lparr>ResourceData := Some c,
                                  keyring_Set := (case stored of None \<Rightarrow> keyring_Set resp
                                                  | Some t \<Rightarrow> Some t)\<rparr>))))"

section \<open>The example configuration\<close>

text \<open>
  The provider block and the resource \<open>hello_world\<close> of \<open>examples/main.tf\<close>, as the
  framework decodes them: an attribute that the configuration leaves out is null, and in the
  plan of a create the computed attributes \<open>id\<close>, \<open>disabled\<close> and \<open>remarks\<close> are unknown.
  \<open>example_client\<close> is a client of a provider with that block.
\<close>

definition example_provider :: StartrailProviderModel where
  "example_provider =
     \<lparr>cfg_Endpoint = StringValue ''http://localhost:8000'', cfg_ApiKey = StringNull,
      cfg_Debug = BoolValue True, cfg_Environment = StringNull, cfg_Tenant = StringNull\<rparr>"

definition example_client :: StartrailProviderClient where
  "example_client =
     \<lparr>client_Authorization = ''Bearer tok'', client_Tenant = ''default'',
      client_Environment = []\<rparr>"

definition hello_world :: ServiceModel where
  "hello_world =
     \<lparr>Model_Id = StringUnknown,
      Model_Access = [\<lparr>Access_Auth = BoolValue True,
                       Access_Endpoint = StringValue ''https://example.com/hello'',
                       Access_Internal = BoolValue False\<rparr>],
      Model_Description = StringValue ''A service which tells hello world'',
      Model_Disabled = BoolUnknown,
      Model_Environment = StringValue ''development'',
      Model_Logging = [],
      Model_Metadata = None,
      Model_Name = StringValue ''hello-world'',
      Model_Remarks = StringUnknown,
      Model_Sources = []\<rparr>"

text \<open>A remote service that answers a create with the document it received.\<close>

fun echo :: "int \<Rightarrow> remote" where
  "echo StatusCode (CreateCall service) =
     ExecOk \<lparr>GetResponse = service, GetDiagnostics = None\<rparr> StatusCode []"
| "echo StatusCode (GetCall tenant environment name) = ExecErr ''not found''"
| "echo StatusCode (DeleteCall tenant environment name) = ExecErr ''not found''"

section \<open>Observations on calls\<close>

text \<open>The tenant that a call to the remote service names.\<close>

fun call_tenant :: "call \<Rightarrow> string" where
  "call_tenant (GetCall tenant environment name) = tenant"
| "call_tenant (CreateCall service) = Tenant service"
| "call_tenant (DeleteCall tenant environment name) = tenant"

section \<open>The content of a model\<close>

text \<open>
  What a \<open>ServiceModel\<close> says, apart from the difference between a null, an unknown and a
  zero value and apart from the order of its logging and source blocks: the labels of a
  block as a map, an access block as its three values, and a list of logging or source
  blocks as the map from \<open>source\<close> to labels in which a later block replaces an earlier
  one of the same source.
\<close>

definition labels_of :: "tf_Map \<Rightarrow> string \<rightharpoonup> string" where
  "labels_of m = (case ElementsAs m of None \<Rightarrow> Map.empty | Some l \<Rightarrow> l)"

definition access_content :: "ServiceResourceModelAccess \<Rightarrow> bool \<times> string \<times> bool" where
  "access_content a =
     (ValueBool (Access_Auth a), ValueString (Access_Endpoint a), ValueBool (Access_Internal a))"

definition logging_content ::
  "ServiceResourceModelLogging list \<Rightarrow> string \<rightharpoonup> (string \<rightharpoonup> string)" where
  "logging_content ls =
     map_of (rev (map (\<lambda>l. (ValueString (Logging_Source l), labels_of (Logging_Labels l))) ls))"

definition sources_content ::
  "ServiceResourceM0delSource list \<Rightarrow> string \<rightharpoonup> (string \<rightharpoonup> string)" where
  "sources_content ss =
     map_of (rev (map (\<lambda>s. (ValueString (Source_Source s), labels_of (Source_Labels s))) ss))"

section \<open>Translation of the remote diagnostics\<close>

text \<open>
  Appending keeps the diagnostics of one severity apart from those of the other, so the loop
  of \<open>handleStartrailDiagnostics\<close> can be read severity by severity.
\<close>

lemma Append_append: "Append diags (xs @ ys) = Append (Append diags xs) ys"
  by (induction xs arbitrary: diags) simp_all

lemma filter_Append:
  "filter P (Append diags new) = Append (filter P diags) (filter P new)"
  by (induction new arbitrary: diags) auto
lemma filter_isError_handle_range:
  "filter isError (handle_range ds diags) =
     Append (filter isError diags)
       (map (\<lambda>d. ErrorDiagnostic (Summary d) (Detail d))
          (filter (\<lambda>d. Severity d = ''error'' \<or> Severity d = ''Error'') ds))"
  by (induction ds arbitrary: diags) (auto simp: AddError_def AddWarning_def filter_Append)

lemma filter_isWarning_handle_range:
  "filter isWarning (handle_range ds diags) =
     Append (filter isWarning diags)
       (map (\<lambda>d. WarningDiagnostic (Summary d) (Detail d))
          (filter (\<lambda>d. Severity d = ''warning'' \<or> Severity d = ''Warning'') ds))"
  by (induction ds arbitrary: diags) (auto simp: AddError_def AddWarning_def filter_Append)
lemma handle_range_append:
  "handle_range (xs @ ys) diags = handle_range ys (handle_range xs diags)"
  by (induction xs arbitrary: diags) simp_all

text \<open>
  C7: when the diagnostics of a response hold exactly one item of error severity
  (\<open>error\<close> or \<open>Error\<close>) and exactly one of warning severity (\<open>warning\<close> or
  \<open>Warning\<close>), the translation adds exactly one error and exactly one warning to the
  caller's diagnostics, the error with the summary and detail of the first item and the
  warning with those of the second. The caller's diagnostics are any that do not hold the two
  already, since \<open>Append\<close> skips duplicates.
\<close>

theorem handleStartrailDiagnostics_error_and_warning:
  assumes "filter (\<lambda>d. Severity d = ''error'' \<or> Severity d = ''Error'') ds = [e]"
    and "filter (\<lambda>d. Severity d = ''warning'' \<or> Severity d = ''Warning'') ds = [w]"
    and "ErrorDiagnostic (Summary e) (Detail e) \<notin> set diags"
    and "WarningDiagnostic (Summary w) (Detail w) \<notin> set diags"
  shows "filter isError (handleStartrailDiagnostics (Some ds) diags) =
           filter isError diags @ [ErrorDiagnostic (Summary e) (Detail e)] \<and>
         filter isWarning (handleStartrailDiagnostics (Some ds) diags) =
           filter isWarning diags @ [WarningDiagnostic (Summary w) (Detail w)]"
  using assms
  by (simp add: handleStartrailDiagnostics_def filter_isError_handle_range
      filter_isWarning_handle_range)

theorem handleStartrailDiagnostics_error_and_warning_witness:
  "filter (\<lambda>d. Severity d = ''error'' \<or> Severity d = ''Error'')
     [\<lparr>Severity = ''error'', Summary = ''quota'', Detail = ''quota exceeded''\<rparr>,
      \<lparr>Severity = ''Warning'', Summary = ''slow'', Detail = ''region is slow''\<rparr>] =
     [\<lparr>Severity = ''error'', Summary = ''quota'', Detail = ''quota exceeded''\<rparr>] \<and>
   filter (\<lambda>d. Severity d = ''warning'' \<or> Severity d = ''Warning'')
     [\<lparr>Severity = ''error'', Summary = ''quota'', Detail = ''quota exceeded''\<rparr>,
      \<lparr>Severity = ''Warning'', Summary = ''slow'', Detail = ''region is slow''\<rparr>] =
     [\<lparr>Severity = ''Warning'', Summary = ''slow'', Detail = ''region is slow''\<rparr>] \<and>
   filter isError (handleStartrailDiagnostics (Some
     [\<lparr>Severity = ''error'', Summary = ''quota'', Detail = ''quota exceeded''\<rparr>,
      \<lparr>Severity = ''Warning'', Summary = ''slow'', Detail = ''region is slow''\<rparr>]) []) =
     [ErrorDiagnostic ''quota'' ''quota exceeded''] \<and>
   filter isWarning (handleStartrailDiagnostics (Some
     [\<lparr>Severity = ''error'', Summary = ''quota'', Detail = ''quota exceeded''\<rparr>,
      \<lparr>Severity = ''Warning'', Summary = ''slow'', Detail = ''region is slow''\<rparr>]) []) =
     [WarningDiagnostic ''slow'' ''region is slow'']"
proof -
  let ?e = "\<lparr>Severity = ''error'', Summary = ''quota'', Detail = ''quota exceeded''\<rparr>"
  let ?w = "\<lparr>Severity = ''Warning'', Summary = ''slow'', Detail = ''region is slow''\<rparr>"
  have h1: "filter (\<lambda>d. Severity d = ''error'' \<or> Severity d = ''Error'') [?e, ?w] = [?e]"
    by simp
  have h2: "filter (\<lambda>d. Severity d = ''warning'' \<or> Severity d = ''Warning'') [?e, ?w] = [?w]"
    by simp
  have h3: "ErrorDiagnostic (Summary ?e) (Detail ?e) \<notin> set []" by simp
  have h4: "WarningDiagnostic (Summary ?w) (Detail ?w) \<notin> set []" by simp
  from handleStartrailDiagnostics_error_and_warning [OF h1 h2 h3 h4] h1 h2
  show ?thesis by simp
qed

text \<open>
  C9: an item whose severity is none of the four strings \<open>error\<close>, \<open>Error\<close>,
  \<open>warning\<close>, \<open>Warning\<close> is dropped: the translation of a list with the item gives what
  the translation of the list without it gives, whatever stands before and after it.
\<close>

theorem handleStartrailDiagnostics_drops_other_severity:
  assumes "Severity d \<notin> {''error'', ''Error'', ''warning'', ''Warning''}"
  shows "handleStartrailDiagnostics (Some (xs @ d # ys)) diags =
         handleStartrailDiagnostics (Some (xs @ ys)) diags"
  using assms by (simp add: handleStartrailDiagnostics_def handle_range_append)

theorem handleStartrailDiagnostics_drops_other_severity_witness:
  "Severity \<lparr>Severity = ''ERROR'', Summary = ''quota'', Detail = ''quota exceeded''\<rparr>
     \<notin> {''error'', ''Error'', ''warning'', ''Warning''} \<and>
   handleStartrailDiagnostics
     (Some ([\<lparr>Severity = ''warning'', Summary = ''slow'', Detail = ''region is slow''\<rparr>] @
            \<lparr>Severity = ''ERROR'', Summary = ''quota'', Detail = ''quota exceeded''\<rparr> # [])) [] =
   [WarningDiagnostic ''slow'' ''region is slow'']"
proof -
  let ?d = "\<lparr>Severity = ''ERROR'', Summary = ''quota'', Detail = ''quota exceeded''\<rparr>"
  have h: "Severity ?d \<notin> {''error'', ''Error'', ''warning'', ''Warning''}" by simp
  from handleStartrailDiagnostics_drops_other_severity [OF h] h
  show ?thesis by (simp add: handleStartrailDiagnostics_def AddWarning_def)
qed

section \<open>The identifier\<close>

text \<open>
  C5: the \<open>id\<close> of the model that \<open>parseServiceResponse\<close> returns is the tenant, the
  environment and the name of the response joined by \<open>/\<close>; for \<open>acme\<close>, \<open>prod\<close> and
  \<open>hello-world\<close> it is \<open>acme/prod/hello-world\<close>. The \<open>id\<close> of the prior state or plan has
  no part in it: \<open>Read\<close>, the data source's \<open>Read\<close> and \<open>post\<close> give the same result
  whatever \<open>id\<close> the model they receive holds.
\<close>

theorem parseServiceResponse_id:
  "Model_Id (fst (parseServiceResponse r)) =
     StringValue (Tenant (GetResponse r) @ ''/'' @ Environment (GetResponse r) @ ''/'' @
                  Name (GetResponse r)) \<and>
   Model_Id (fst (parseServiceResponse
     (r\<lparr>GetResponse := (GetResponse r)\<lparr>Tenant := ''acme'', Environment := ''prod'',
                                         Name := ''hello-world''\<rparr>\<rparr>))) =
     StringValue ''acme/prod/hello-world'' \<and>
   Read c api (req\<lparr>req_Data := (req_Data req)\<lparr>Model_Id := prior\<rparr>\<rparr>) resp = Read c api req resp \<and>
   DataSource_Read c api (req\<lparr>req_Data := (req_Data req)\<lparr>Model_Id := prior\<rparr>\<rparr>) resp =
     DataSource_Read c api req resp \<and>
   post c api (data\<lparr>Model_Id := prior\<rparr>) = post c api data"
proof -
  have "Read c api (req\<lparr>req_Data := (req_Data req)\<lparr>Model_Id := prior\<rparr>\<rparr>) resp = Read c api req resp"
    by (simp add: Read_def Let_def split: exec.split prod.split)
  moreover have "DataSource_Read c api (req\<lparr>req_Data := (req_Data req)\<lparr>Model_Id := prior\<rparr>\<rparr>) resp =
     DataSource_Read c api req resp"
    by (simp add: DataSource_Read_def Let_def split: exec.split prod.split)
  moreover have "post c api (data\<lparr>Model_Id := prior\<rparr>) = post c api data"
    by (simp add: post_def post_service_def Let_def split: exec.split prod.split)
  ultimately show ?thesis
    by (simp add: parseServiceResponse_def Let_def)
qed

section \<open>Lists of blocks to maps\<close>

lemma map_of_map_assign: "map_of (map_assign m k v) = (map_of m)(k \<mapsto> v)"
  by (induction m k v rule: map_assign.induct) (auto simp: fun_eq_iff)

lemma fst_set_map_assign: "fst ` set (map_assign m k v) = insert k (fst ` set m)"
  by (induction m k v rule: map_assign.induct) auto

lemma distinct_map_assign:
  "distinct (map fst m) \<Longrightarrow> distinct (map fst (map_assign m k v))"
proof (induction m k v rule: map_assign.induct)
  case (1 k v)
  then show ?case by simp
next
  case (2 k' v' m k v)
  then show ?case using fst_set_map_assign [of m k v] by auto
qed

lemma map_of_foldl_map_assign:
  "map_of (foldl (\<lambda>m l. map_assign m (f l) (g l)) m0 ls) k =
     (case find (\<lambda>l. f l = k) (rev ls) of None \<Rightarrow> map_of m0 k | Some l \<Rightarrow> Some (g l))"
  by (induction ls rule: rev_induct) (simp_all add: map_of_map_assign)

lemma distinct_foldl_map_assign:
  "distinct (map fst m0) \<Longrightarrow> distinct (map fst (foldl (\<lambda>m l. map_assign m (f l) (g l)) m0 ls))"
  by (induction ls rule: rev_induct) (simp_all add: distinct_map_assign)

text \<open>
  C6: in the \<open>Service\<close> that \<open>post\<close> builds, the logging map binds a key to the labels of
  the last entry of the logging list whose \<open>source\<close> is that key, and to nothing when there
  is no such entry; the sources map likewise. Both have one entry per key. Two logging
  entries with the source \<open>app\<close> leave one entry, with the labels of the second.
\<close>

theorem post_service_last_write_wins:
  "map_of (Logging (post_service c data)) k =
     map_option (\<lambda>l. \<lparr>LoggingLabels = ElementsAs (Logging_Labels l)\<rparr>)
       (find (\<lambda>l. ValueString (Logging_Source l) = k) (rev (Model_Logging data))) \<and>
   map_of (Sources (post_service c data)) k =
     map_option (\<lambda>s. \<lparr>SourceLabels = ElementsAs (Source_Labels s)\<rparr>)
       (find (\<lambda>s. ValueString (Source_Source s) = k) (rev (Model_Sources data))) \<and>
   distinct (map fst (Logging (post_service c data))) \<and>
   distinct (map fst (Sources (post_service c data))) \<and>
   Logging (post_service c (data\<lparr>Model_Logging :=
       [\<lparr>Logging_Labels = a, Logging_Source = StringValue ''app''\<rparr>,
        \<lparr>Logging_Labels = b, Logging_Source = StringValue ''app''\<rparr>]\<rparr>)) =
     [(''app'', \<lparr>LoggingLabels = ElementsAs b\<rparr>)]"
  by (simp add: post_service_def Let_def map_of_foldl_map_assign distinct_foldl_map_assign
      split: option.split)

section \<open>The calls of the lifecycle operations\<close>

text \<open>
  \<open>post\<close> makes one call, the create of the \<open>Service\<close> it built; \<open>Create\<close> and \<open>Update\<close>
  make that call or none; \<open>Read\<close> and \<open>Delete\<close> make at most one call, with the tenant of
  the client, the environment after the fallback and the name of the model.
\<close>

lemma post_calls: "snd (post r api data) = [CreateCall (post_service r data)]"
  by (simp add: post_def Let_def split: exec.split)

lemma Create_calls:
  "set (snd (Create r api req resp)) \<subseteq> {CreateCall (post_service r (req_Data req))}"
  using post_calls [of r api "req_Data req"]
  by (auto simp: Create_def Let_def split: prod.splits if_splits)

lemma Update_calls:
  "set (snd (Update r api req resp)) \<subseteq> {CreateCall (post_service r (req_Data req))}"
  using post_calls [of r api "req_Data req"]
  by (auto simp: Update_def Let_def split: prod.splits if_splits)

lemma Read_calls:
  "set (snd (Read r api req resp)) \<subseteq>
     {GetCall (client_Tenant r)
        (if ValueString (Model_Environment (req_Data req)) = [] then client_Environment r
         else ValueString (Model_Environment (req_Data req)))
        (ValueString (Model_Name (req_Data req)))}"
  by (simp add: Read_def Let_def split: exec.split prod.split)

lemma DataSource_Read_calls:
  "set (snd (DataSource_Read r api req resp)) \<subseteq>
     {GetCall (client_Tenant r)
        (if ValueString (Model_Environment (req_Data req)) = [] then client_Environment r
         else ValueString (Model_Environment (req_Data req)))
        (ValueString (Model_Name (req_Data req)))}"
  by (simp add: DataSource_Read_def Let_def split: exec.split prod.split)

lemma Delete_calls:
  "set (snd (Delete r api req resp)) \<subseteq>
     {DeleteCall (client_Tenant r)
        (if ValueString (Model_Environment (req_Data req)) = [] then client_Environment r
         else ValueString (Model_Environment (req_Data req)))
        (ValueString (Model_Name (req_Data req)))}"
  by (simp add: Delete_def Let_def split: exec.split prod.split)

text \<open>
  C4: when the \<open>environment\<close> attribute of the resource is empty, the \<open>Service\<close> that
  \<open>post\<close> builds carries the default environment of the provider client, and this is the
  document of the one create call that \<open>post\<close>, \<open>Create\<close> and \<open>Update\<close> make; \<open>Read\<close>,
  \<open>Delete\<close> and the data source's \<open>Read\<close> call the service with the default environment
  too. The identifier is built from the response to that call. The witness is a provider
  default of \<open>staging\<close>.
\<close>

theorem environment_fallback:
  assumes "ValueString (Model_Environment (req_Data req)) = []"
  shows "Environment (post_service r (req_Data req)) = client_Environment r \<and>
         snd (post r api (req_Data req)) = [CreateCall (post_service r (req_Data req))] \<and>
         set (snd (Create r api req resp)) \<subseteq> {CreateCall (post_service r (req_Data req))} \<and>
         set (snd (Update r api req resp)) \<subseteq> {CreateCall (post_service r (req_Data req))} \<and>
         set (snd (Read r api req resp)) \<subseteq>
           {GetCall (client_Tenant r) (client_Environment r)
              (ValueString (Model_Name (req_Data req)))} \<and>
         set (snd (Delete r api req resp)) \<subseteq>
           {DeleteCall (client_Tenant r) (client_Environment r)
              (ValueString (Model_Name (req_Data req)))} \<and>
         set (snd (DataSource_Read r api req resp)) \<subseteq>
           {GetCall (client_Tenant r) (client_Environment r)
              (ValueString (Model_Name (req_Data req)))}"
  using assms post_calls [of r api "req_Data req"] Create_calls [of r api req resp]
    Update_calls [of r api req resp] Read_calls [of r api req resp]
    Delete_calls [of r api req resp] DataSource_Read_calls [of r api req resp]
  by (simp add: post_service_def Let_def)

theorem environment_fallback_witness:
  "ValueString (Model_Environment (req_Data
     \<lparr>req_Diagnostics = [],
      req_Data = ServiceModel_zero\<lparr>Model_Name := StringValue ''hello-world'',
                                     Model_Environment := StringValue []\<rparr>\<rparr>)) = [] \<and>
   Environment (post_service
     \<lparr>client_Authorization = ''apiKey k'', client_Tenant = ''default'',
      client_Environment = ''staging''\<rparr>
     (ServiceModel_zero\<lparr>Model_Name := StringValue ''hello-world'',
                         Model_Environment := StringValue []\<rparr>)) = ''staging'' \<and>
   map (\<lambda>k. case k of CreateCall s \<Rightarrow> Environment s | _ \<Rightarrow> ''?'')
     (snd (Create
       \<lparr>client_Authorization = ''apiKey k'', client_Tenant = ''default'',
        client_Environment = ''staging''\<rparr>
       (\<lambda>k. ExecErr ''unreachable'')
       \<lparr>req_Diagnostics = [],
        req_Data = ServiceModel_zero\<lparr>Model_Name := StringValue ''hello-world'',
                                       Model_Environment := StringValue []\<rparr>\<rparr>
       \<lparr>resp_Diagnostics = [], resp_State = None\<rparr>)) = [''staging'']"
proof -
  let ?req = "\<lparr>req_Diagnostics = [],
      req_Data = ServiceModel_zero\<lparr>Model_Name := StringValue ''hello-world'',
                                     Model_Environment := StringValue []\<rparr>\<rparr>"
  let ?r = "\<lparr>client_Authorization = ''apiKey k'', client_Tenant = ''default'',
      client_Environment = ''staging''\<rparr>"
  have h: "ValueString (Model_Environment (req_Data ?req)) = []" by simp
  have e: "map (\<lambda>k. case k of CreateCall s \<Rightarrow> Environment s | _ \<Rightarrow> ''?'')
     (snd (Create ?r (\<lambda>k. ExecErr ''unreachable'') ?req
       \<lparr>resp_Diagnostics = [], resp_State = None\<rparr>)) = [''staging'']"
    by (simp add: Create_def post_def post_service_def HasError_def Let_def)
  from environment_fallback [OF h, of ?r "\<lambda>k. ExecErr ''unreachable''"
      "\<lparr>resp_Diagnostics = [], resp_State = None\<rparr>"] h e
  show ?thesis by simp
qed

section \<open>The tenant\<close>

lemma Configure_tenant:
  assumes "ResourceData resp = None"
      and "ResourceData (Configure os req resp) = Some c"
  shows "client_Tenant c =
           (if ValueString (cfg_Tenant (config_Data req)) = [] then ''default''
            else ValueString (cfg_Tenant (config_Data req)))"
  using assms
  by (auto simp: Configure_def Let_def split: if_splits option.splits sum.splits prod.splits)

lemma calls_tenant:
  "list_all (\<lambda>k. call_tenant k = client_Tenant c) (snd (Create c api rq rs)) \<and>
   list_all (\<lambda>k. call_tenant k = client_Tenant c) (snd (Update c api rq rs)) \<and>
   list_all (\<lambda>k. call_tenant k = client_Tenant c) (snd (Read c api rq rs)) \<and>
   list_all (\<lambda>k. call_tenant k = client_Tenant c) (snd (Delete c api rq rs)) \<and>
   list_all (\<lambda>k. call_tenant k = client_Tenant c) (snd (DataSource_Read c api rq rs))"
proof -
  have t: "Tenant (post_service c (req_Data rq)) = client_Tenant c"
    by (simp add: post_service_def Let_def)
  show ?thesis
    using Create_calls [of c api rq rs] Update_calls [of c api rq rs] Read_calls [of c api rq rs]
      Delete_calls [of c api rq rs] DataSource_Read_calls [of c api rq rs] t
    by (auto simp: list_all_iff)
qed

text \<open>
  C10: when the tenant of the provider block is empty and \<open>Configure\<close> hands out a client,
  the tenant of that client is \<open>default\<close>; the \<open>Service\<close> built from any resource model
  carries it, and every call that \<open>Create\<close>, \<open>Update\<close>, \<open>Read\<close>, \<open>Delete\<close> and the data
  source's \<open>Read\<close> make with that client names it, whatever the request holds.
\<close>

theorem default_tenant:
  assumes "ValueString (cfg_Tenant (config_Data req)) = []"
      and "ResourceData resp = None"
      and "ResourceData (Configure os req resp) = Some c"
  shows "client_Tenant c = ''default'' \<and>
         Tenant (post_service c data) = ''default'' \<and>
         list_all (\<lambda>k. call_tenant k = ''default'') (snd (Create c api rq rs)) \<and>
         list_all (\<lambda>k. call_tenant k = ''default'') (snd (Update c api rq rs)) \<and>
         list_all (\<lambda>k. call_tenant k = ''default'') (snd (Read c api rq rs)) \<and>
         list_all (\<lambda>k. call_tenant k = ''default'') (snd (Delete c api rq rs)) \<and>
         list_all (\<lambda>k. call_tenant k = ''default'') (snd (DataSource_Read c api rq rs))"
proof -
  have c: "client_Tenant c = ''default''"
    using Configure_tenant [OF assms(2) assms(3)] assms(1) by simp
  have "Tenant (post_service c data) = client_Tenant c"
    by (simp add: post_service_def Let_def)
  with c calls_tenant [of c api rq rs] show ?thesis by simp
qed

theorem default_tenant_witness:
  "ValueString (cfg_Tenant (config_Data
     \<lparr>config_Diagnostics = [],
      config_Data = example_provider\<lparr>cfg_ApiKey := StringValue ''k''\<rparr>\<rparr>)) = [] \<and>
   ResourceData \<lparr>conf_Diagnostics = [], ResourceData = None, keyring_Set = None\<rparr> = None \<and>
   ResourceData (Configure
     \<lparr>STARTRAIL_TOKEN = ''tok'', STARTRAIL_API_KEY = [], url_Parse = (\<lambda>u. None),
      WellKnownAuth = AuthErr ''unreachable'', keyring_Get = Inl ''unreachable'',
      Token = (\<lambda>t. Inl ''unreachable'')\<rparr>
     \<lparr>config_Diagnostics = [],
      config_Data = example_provider\<lparr>cfg_ApiKey := StringValue ''k''\<rparr>\<rparr>
     \<lparr>conf_Diagnostics = [], ResourceData = None, keyring_Set = None\<rparr>) = Some example_client \<and>
   client_Tenant example_client = ''default'' \<and>
   Tenant (post_service example_client hello_world) = ''default'' \<and>
   list_all (\<lambda>k. call_tenant k = ''default'')
     (snd (Delete example_client (echo 200) \<lparr>req_Diagnostics = [], req_Data = hello_world\<rparr>
             \<lparr>resp_Diagnostics = [], resp_State = Some hello_world\<rparr>))"
proof -
  let ?os = "\<lparr>STARTRAIL_TOKEN = ''tok'', STARTRAIL_API_KEY = [], url_Parse = (\<lambda>u. None),
      WellKnownAuth = AuthErr ''unreachable'', keyring_Get = Inl ''unreachable'',
      Token = (\<lambda>t. Inl ''unreachable'')\<rparr>"
  let ?req = "\<lparr>config_Diagnostics = [],
      config_Data = example_provider\<lparr>cfg_ApiKey := StringValue ''k''\<rparr>\<rparr>"
  let ?resp = "\<lparr>conf_Diagnostics = [], ResourceData = None, keyring_Set = None\<rparr>"
  have h1: "ValueString (cfg_Tenant (config_Data ?req)) = []"
    by (simp add: example_provider_def)
  have h2: "ResourceData ?resp = None" by simp
  have h3: "ResourceData (Configure ?os ?req ?resp) = Some example_client"
    by (simp add: Configure_def Configure_token_def example_provider_def example_client_def
        HasError_def Let_def)
  from default_tenant [OF h1 h2 h3, of hello_world "echo 200"
      "\<lparr>req_Diagnostics = [], req_Data = hello_world\<rparr>"
      "\<lparr>resp_Diagnostics = [], resp_State = Some hello_world\<rparr>"] h1 h2 h3
  show ?thesis by simp
qed

section \<open>Status codes other than 200\<close>

text \<open>
  \<open>post\<close> answers a status code other than 200 with the zero model and an error. \<open>Update\<close>,
  \<open>Read\<close>, \<open>Delete\<close> and the data source's \<open>Read\<close> then return with the error and leave the
  state as it was. \<open>Create\<close> has no check between \<open>post\<close> and \<open>resp.State.Set\<close>: it stores
  the zero model.
\<close>

lemma set_Append: "set (Append a b) = set a \<union> set b"
  by (induction b arbitrary: a) auto

lemma HasError_Append: "HasError (Append a b) = (HasError a \<or> HasError b)"
  by (auto simp: HasError_def list_ex_iff set_Append)

lemma HasError_AddError: "HasError (AddError diags summary detail)"
  unfolding AddError_def HasError_Append by (simp add: HasError_def)

lemma post_not_200:
  assumes "api (CreateCall (post_service r data)) = ExecOk response StatusCode Body"
      and "StatusCode \<noteq> 200"
  shows "fst (fst (post r api data)) = ServiceModel_zero \<and> HasError (snd (fst (post r api data)))"
  using assms by (simp add: post_def Let_def HasError_AddError)

lemma Create_not_200:
  assumes "\<not> HasError (Append (resp_Diagnostics resp) (req_Diagnostics req))"
      and "api (CreateCall (post_service r (req_Data req))) = ExecOk response StatusCode Body"
      and "StatusCode \<noteq> 200"
  shows "resp_State (fst (Create r api req resp)) = Some ServiceModel_zero \<and>
         HasError (resp_Diagnostics (fst (Create r api req resp)))"
  using assms post_not_200 [of api r "req_Data req" response StatusCode Body]
  by (auto simp: Create_def Let_def HasError_Append split: prod.splits)

lemma Update_not_200:
  assumes "api (CreateCall (post_service r (req_Data req))) = ExecOk response StatusCode Body"
      and "StatusCode \<noteq> 200"
  shows "resp_State (fst (Update r api req resp)) = resp_State resp \<and>
         HasError (resp_Diagnostics (fst (Update r api req resp)))"
  using assms post_not_200 [of api r "req_Data req" response StatusCode Body]
  by (auto simp: Update_def Let_def HasError_Append split: prod.splits)

lemma Read_not_200:
  assumes "api (GetCall (client_Tenant r)
             (if ValueString (Model_Environment (req_Data req)) = [] then client_Environment r
              else ValueString (Model_Environment (req_Data req)))
             (ValueString (Model_Name (req_Data req)))) = ExecOk response StatusCode Body"
      and "StatusCode \<noteq> 200"
  shows "resp_State (fst (Read r api req resp)) = resp_State resp \<and>
         HasError (resp_Diagnostics (fst (Read r api req resp)))"
  using assms by (simp add: Read_def Let_def HasError_AddError)

lemma DataSource_Read_not_200:
  assumes "api (GetCall (client_Tenant r)
             (if ValueString (Model_Environment (req_Data req)) = [] then client_Environment r
              else ValueString (Model_Environment (req_Data req)))
             (ValueString (Model_Name (req_Data req)))) = ExecOk response StatusCode Body"
      and "StatusCode \<noteq> 200"
  shows "resp_State (fst (DataSource_Read r api req resp)) = resp_State resp \<and>
         HasError (resp_Diagnostics (fst (DataSource_Read r api req resp)))"
  using assms by (simp add: DataSource_Read_def Let_def HasError_AddError)

lemma Delete_not_200:
  assumes "api (DeleteCall (client_Tenant r)
             (if ValueString (Model_Environment (req_Data req)) = [] then client_Environment r
              else ValueString (Model_Environment (req_Data req)))
             (ValueString (Model_Name (req_Data req)))) = ExecOk response StatusCode Body"
      and "StatusCode \<noteq> 200"
  shows "resp_State (fst (Delete r api req resp)) = resp_State resp \<and>
         HasError (resp_Diagnostics (fst (Delete r api req resp)))"
  using assms by (simp add: Delete_def Let_def HasError_AddError)

text \<open>
  C2, at a create whose response has the status code 201: \<open>Create\<close> reports the error and
  sets the state, which was empty, to the zero model \<open>ServiceModel{}\<close>.
\<close>

theorem Create_status_201_writes_state:
  "Create example_client (echo 201) \<lparr>req_Diagnostics = [], req_Data = hello_world\<rparr>
     \<lparr>resp_Diagnostics = [], resp_State = None\<rparr> =
   (\<lparr>resp_Diagnostics =
       [ErrorDiagnostic ''Client Error'' ''Unable to update service, got errors: ''],
     resp_State = Some ServiceModel_zero\<rparr>,
    [CreateCall (post_service example_client hello_world)])"
  by (simp add: Create_def post_def HasError_def AddError_def handleStartrailDiagnostics_def
      Let_def)

section \<open>The credential\<close>

text \<open>
  When the \<open>api_key\<close> of the provider block is null, the first branch of the chain is taken
  whatever the two environment variables hold; when both variables are empty it is taken
  whatever the \<open>api_key\<close> is. So the last branch, the configured key, is never reached.
\<close>

lemma Configure_token_null_api_key:
  "IsNull (cfg_ApiKey data) \<Longrightarrow>
   Configure_token (os\<lparr>STARTRAIL_TOKEN := t, STARTRAIL_API_KEY := k\<rparr>) data =
   Configure_token os data"
  by (simp add: Configure_token_def split: auth_exec.split sum.split prod.split)

lemma Configure_token_no_env:
  "STARTRAIL_TOKEN os = [] \<Longrightarrow> STARTRAIL_API_KEY os = [] \<Longrightarrow>
   Configure_token os (data\<lparr>cfg_ApiKey := key\<rparr>) = Configure_token os data"
  by (simp add: Configure_token_def split: auth_exec.split sum.split prod.split)

text \<open>
  C3, at the provider block of the example (no \<open>api_key\<close>) with \<open>STARTRAIL_TOKEN\<close> set to
  \<open>tok\<close>: \<open>Configure\<close> runs the device flow. Where the tenant has the device flow disabled
  it fails and hands out no client; where the flow succeeds the credential is the access
  token of the flow, not \<open>Bearer tok\<close>.
\<close>

theorem Configure_ignores_token:
  "Configure
     \<lparr>STARTRAIL_TOKEN = ''tok'', STARTRAIL_API_KEY = [], url_Parse = (\<lambda>u. None),
      WellKnownAuth = AuthOk False 200, keyring_Get = Inl ''secret not found in keyring'',
      Token = (\<lambda>t. Inl ''invalid_grant'')\<rparr>
     \<lparr>config_Diagnostics = [], config_Data = example_provider\<rparr>
     \<lparr>conf_Diagnostics = [], ResourceData = None, keyring_Set = None\<rparr> =
   \<lparr>conf_Diagnostics =
      [ErrorDiagnostic ''Client Error''
         (''Device flow is not enabled for the tenant. Please pass an '' @ [CHR 0x27] @
          ''api_key'' @ [CHR 0x27] @ '' instead'')],
    ResourceData = None, keyring_Set = None\<rparr> \<and>
   Configure
     \<lparr>STARTRAIL_TOKEN = ''tok'', STARTRAIL_API_KEY = [], url_Parse = (\<lambda>u. None),
      WellKnownAuth = AuthOk True 200, keyring_Get = Inr ''r1'',
      Token = (\<lambda>t. Inr (''device-access'', ''r2''))\<rparr>
     \<lparr>config_Diagnostics = [], config_Data = example_provider\<rparr>
     \<lparr>conf_Diagnostics = [], ResourceData = None, keyring_Set = None\<rparr> =
   \<lparr>conf_Diagnostics = [],
    ResourceData = Some \<lparr>client_Authorization = ''Bearer device-access'',
                          client_Tenant = ''default'', client_Environment = []\<rparr>,
    keyring_Set = Some ''r2''\<rparr>"
  by (simp add: Configure_def Configure_token_def example_provider_def HasError_def AddError_def
      Let_def)

section \<open>Metadata\<close>

text \<open>The \<open>Service\<close> that \<open>post\<close> builds has its metadata unset, whatever the model holds.\<close>

lemma post_service_Metadata: "Metadata (post_service c data) = \<lparr>nm_value = None, isSet = False\<rparr>"
  by (simp add: post_service_def Let_def)

text \<open>
  C8, at the example resource with a metadata block of one label: the document of the create
  call that \<open>post\<close> makes has the metadata unset; the labels are not in it.
\<close>

theorem post_drops_metadata:
  "snd (post example_client (echo 200)
     (hello_world\<lparr>Model_Metadata :=
        Some \<lparr>Metadata_Labels = MapValue [''team'' \<mapsto> StringValue ''core'']\<rparr>\<rparr>)) =
   [CreateCall
     \<lparr>Access = [\<lparr>Auth = True, Endpoint = ''https://example.com/hello'', Internal = False\<rparr>],
      Description = ''A service which tells hello world'',
      Disabled = Some False,
      Environment = ''development'',
      Logging = [],
      Metadata = \<lparr>nm_value = None, isSet = False\<rparr>,
      Name = ''hello-world'',
      Remarks = [],
      Sources = [],
      Tenant = ''default''\<rparr>]"
  by (simp add: post_def post_service_def hello_world_def example_client_def Let_def
      handleStartrailDiagnostics_def HasError_def)

section \<open>From the model to the domain object and back\<close>

text \<open>
  The response is the \<open>Service\<close> that \<open>post\<close> built, with its logging and sources maps in
  any order of iteration. For a model with a non-empty environment, \<open>parseServiceResponse\<close>
  gives back the content of every attribute but the metadata, which is nil.
\<close>

lemma map_of_pairs_find:
  "map_of (map (\<lambda>l. (f l, h l)) xs) k = map_option h (find (\<lambda>l. f l = k) xs)"
  by (induction xs) auto

lemma map_of_rev_distinct: "distinct (map fst xs) \<Longrightarrow> map_of (rev xs) = map_of xs"
proof (induction xs)
  case Nil
  then show ?case by simp
next
  case (Cons p xs)
  obtain k v where p: "p = (k, v)" by (cases p)
  from Cons.prems p have k: "k \<notin> fst ` set xs" by auto
  then have "k \<notin> dom (map_of (rev xs))" by (simp add: dom_map_of_conv_image_fst)
  with Cons p show ?case
    by (auto simp: map_add_def fun_eq_iff dom_def split: option.split)
qed

lemma map_of_map_value:
  "map_of (map (\<lambda>(k, v). (k, f v)) xs) k = map_option f (map_of xs k)"
  by (induction xs) auto

lemma labels_of_tf_labels_ElementsAs: "labels_of (tf_labels (ElementsAs m)) = labels_of m"
  by (cases m) (simp_all add: labels_of_def fun_eq_iff option.map_comp comp_def)

lemma logging_roundtrip:
  assumes "map_of lg = map_of (foldl (\<lambda>m l. map_assign m (ValueString (Logging_Source l))
                                    \<lparr>LoggingLabels = ElementsAs (Logging_Labels l)\<rparr>) [] ls)"
      and "distinct (map fst lg)"
  shows "logging_content (map (\<lambda>(k, v). \<lparr>Logging_Labels = tf_labels (LoggingLabels v),
                                      Logging_Source = StringValue k\<rparr>) lg) = logging_content ls"
proof
  fix k
  let ?out = "map (\<lambda>(k, v). (k, labels_of (tf_labels (LoggingLabels v)))) lg"
  have "logging_content (map (\<lambda>(k, v). \<lparr>Logging_Labels = tf_labels (LoggingLabels v),
                                      Logging_Source = StringValue k\<rparr>) lg) = map_of (rev ?out)"
    by (simp add: logging_content_def comp_def case_prod_unfold)
  also have "\<dots> = map_of ?out"
    using assms(2) by (intro map_of_rev_distinct) (simp add: comp_def case_prod_unfold)
  finally have "logging_content (map (\<lambda>(k, v). \<lparr>Logging_Labels = tf_labels (LoggingLabels v),
                                      Logging_Source = StringValue k\<rparr>) lg) k =
      map_option (\<lambda>v. labels_of (tf_labels (LoggingLabels v))) (map_of lg k)"
    by (simp add: map_of_map_value)
  also have "\<dots> = map_option (\<lambda>l. labels_of (Logging_Labels l))
                      (find (\<lambda>l. ValueString (Logging_Source l) = k) (rev ls))"
    by (simp add: assms(1) map_of_foldl_map_assign option.map_comp comp_def
        labels_of_tf_labels_ElementsAs split: option.split)
  also have "\<dots> = logging_content ls k"
    by (simp add: logging_content_def rev_map map_of_pairs_find)
  finally show "logging_content (map (\<lambda>(k, v). \<lparr>Logging_Labels = tf_labels (LoggingLabels v),
                                      Logging_Source = StringValue k\<rparr>) lg) k = logging_content ls k" .
qed

lemma sources_roundtrip:
  assumes "map_of sr = map_of (foldl (\<lambda>m l. map_assign m (ValueString (Source_Source l))
                                    \<lparr>SourceLabels = ElementsAs (Source_Labels l)\<rparr>) [] ss)"
      and "distinct (map fst sr)"
  shows "sources_content (map (\<lambda>(k, v). \<lparr>Source_Labels = tf_labels (SourceLabels v),
                                      Source_Source = StringValue k\<rparr>) sr) = sources_content ss"
proof
  fix k
  let ?out = "map (\<lambda>(k, v). (k, labels_of (tf_labels (SourceLabels v)))) sr"
  have "sources_content (map (\<lambda>(k, v). \<lparr>Source_Labels = tf_labels (SourceLabels v),
                                      Source_Source = StringValue k\<rparr>) sr) = map_of (rev ?out)"
    by (simp add: sources_content_def comp_def case_prod_unfold)
  also have "\<dots> = map_of ?out"
    using assms(2) by (intro map_of_rev_distinct) (simp add: comp_def case_prod_unfold)
  finally have "sources_content (map (\<lambda>(k, v). \<lparr>Source_Labels = tf_labels (SourceLabels v),
                                      Source_Source = StringValue k\<rparr>) sr) k =
      map_option (\<lambda>v. labels_of (tf_labels (SourceLabels v))) (map_of sr k)"
    by (simp add: map_of_map_value)
  also have "\<dots> = map_option (\<lambda>l. labels_of (Source_Labels l))
                      (find (\<lambda>l. ValueString (Source_Source l) = k) (rev ss))"
    by (simp add: assms(1) map_of_foldl_map_assign option.map_comp comp_def
        labels_of_tf_labels_ElementsAs split: option.split)
  also have "\<dots> = sources_content ss k"
    by (simp add: sources_content_def rev_map map_of_pairs_find)
  finally show "sources_content (map (\<lambda>(k, v). \<lparr>Source_Labels = tf_labels (SourceLabels v),
                                      Source_Source = StringValue k\<rparr>) sr) k = sources_content ss k" .
qed


lemma post_parse_roundtrip:
  assumes "ValueString (Model_Environment data) \<noteq> []"
      and "map_of lg = map_of (Logging (post_service c data))" and "distinct (map fst lg)"
      and "map_of sr = map_of (Sources (post_service c data))" and "distinct (map fst sr)"
  shows "(let out = fst (parseServiceResponse
                     \<lparr>GetResponse = (post_service c data)\<lparr>Logging := lg, Sources := sr\<rparr>,
                      GetDiagnostics = dg\<rparr>)
         in Model_Id out = StringValue (client_Tenant c @ ''/'' @
                             ValueString (Model_Environment data) @ ''/'' @
                             ValueString (Model_Name data)) \<and>
            ValueString (Model_Environment out) = ValueString (Model_Environment data) \<and>
            ValueString (Model_Name out) = ValueString (Model_Name data) \<and>
            ValueString (Model_Description out) = ValueString (Model_Description data) \<and>
            ValueString (Model_Remarks out) = ValueString (Model_Remarks data) \<and>
            ValueBool (Model_Disabled out) = ValueBool (Model_Disabled data) \<and>
            map access_content (Model_Access out) = map access_content (Model_Access data) \<and>
            logging_content (Model_Logging out) = logging_content (Model_Logging data) \<and>
            sources_content (Model_Sources out) = sources_content (Model_Sources data) \<and>
            Model_Metadata out = None)"
proof -
  have d: "ValueBool (BoolValue (GetDisabled (post_service c data))) = ValueBool (Model_Disabled data)"
    by (cases "Model_Disabled data") (simp_all add: GetDisabled_def post_service_def Let_def)
  have l: "logging_content (map (\<lambda>(k, v). \<lparr>Logging_Labels = tf_labels (LoggingLabels v),
                                      Logging_Source = StringValue k\<rparr>) lg) =
           logging_content (Model_Logging data)"
    using assms(2,3) by (intro logging_roundtrip) (simp_all add: post_service_def Let_def)
  have s: "sources_content (map (\<lambda>(k, v). \<lparr>Source_Labels = tf_labels (SourceLabels v),
                                      Source_Source = StringValue k\<rparr>) sr) =
           sources_content (Model_Sources data)"
    using assms(4,5) by (intro sources_roundtrip) (simp_all add: post_service_def Let_def)
  have a: "map access_content (map (\<lambda>a. \<lparr>Access_Auth = BoolValue (Auth a),
                                 Access_Endpoint = StringValue (Endpoint a),
                                 Access_Internal = BoolValue (Internal a)\<rparr>)
              (Access (post_service c data))) = map access_content (Model_Access data)"
    by (simp add: post_service_def Let_def access_content_def comp_def)
  have m: "\<not> HasMetadata ((post_service c data)\<lparr>Logging := lg, Sources := sr\<rparr>)"
    by (simp add: HasMetadata_def post_service_def Let_def)
  have g: "GetDisabled ((post_service c data)\<lparr>Logging := lg, Sources := sr\<rparr>) =
           GetDisabled (post_service c data)"
    by (simp add: GetDisabled_def)
  have e: "Environment (post_service c data) = ValueString (Model_Environment data)"
          "Tenant (post_service c data) = client_Tenant c"
          "Name (post_service c data) = ValueString (Model_Name data)"
          "Description (post_service c data) = ValueString (Model_Description data)"
          "Remarks (post_service c data) = ValueString (Model_Remarks data)"
    using assms(1) by (simp_all add: post_service_def Let_def)
  show ?thesis
    using d l s a m by (simp add: parseServiceResponse_def Let_def g e)
qed

text \<open>
  C1, at the example resource with a metadata block of one label: the model that
  \<open>parseServiceResponse\<close> gives for the \<open>Service\<close> built by \<open>post\<close> has no metadata block.
\<close>

theorem roundtrip_loses_metadata:
  "Model_Metadata (hello_world\<lparr>Model_Metadata :=
        Some \<lparr>Metadata_Labels = MapValue [''team'' \<mapsto> StringValue ''core'']\<rparr>\<rparr>) =
     Some \<lparr>Metadata_Labels = MapValue [''team'' \<mapsto> StringValue ''core'']\<rparr> \<and>
   Model_Metadata (fst (parseServiceResponse
     \<lparr>GetResponse = post_service example_client
        (hello_world\<lparr>Model_Metadata :=
           Some \<lparr>Metadata_Labels = MapValue [''team'' \<mapsto> StringValue ''core'']\<rparr>\<rparr>),
      GetDiagnostics = None\<rparr>)) = None"
  by (simp add: parseServiceResponse_def post_service_def HasMetadata_def Let_def)

end
